theory Spec2Isabelle
  imports Complex_Main "HOL-Library.Multiset"
begin

section \<open>Python floats\<close>

text \<open>
  The price and the atr of the payload are Python floats: IEEE 754 doubles. A float is
  a real number (every double is one; the two zeros are not told apart), an infinity or
  NaN. The comparisons with zero of the handler are exact; a comparison with NaN is
  false.
\<close>

datatype pyfloat = Finite real | PosInf | NegInf | NaN

fun le_zero :: "pyfloat \<Rightarrow> bool" where
  "le_zero (Finite x) = (x \<le> 0)"
| "le_zero NegInf = True"
| "le_zero PosInf = False"
| "le_zero NaN = False"

fun lt_zero :: "pyfloat \<Rightarrow> bool" where
  "lt_zero (Finite x) = (x < 0)"
| "lt_zero NegInf = True"
| "lt_zero PosInf = False"
| "lt_zero NaN = False"

fun is_nan :: "pyfloat \<Rightarrow> bool" where
  "is_nan NaN = True"
| "is_nan _ = False"

text \<open>
  Rounding a real to the nearest double, ties to even: the exponent \<open>e\<close> of the
  binade of \<open>x\<close> (at least \<open>-1022\<close>, where the subnormal numbers begin), the
  spacing \<open>2 powi (e - 52)\<close> of the doubles there, the nearest multiple of the
  spacing, and an infinity when that multiple is beyond the largest double.
\<close>

definition round_half_even :: "real \<Rightarrow> int" where
  "round_half_even x =
     (let f = \<lfloor>x\<rfloor>; r = x - of_int f
      in if r < 1 / 2 then f else if 1 / 2 < r then f + 1 else if even f then f else f + 1)"

function exponent_from :: "int \<Rightarrow> real \<Rightarrow> int" where
  "exponent_from e x =
     (if e \<le> - 1022 \<or> 2 powi e \<le> \<bar>x\<bar> then e else exponent_from (e - 1) x)"
  by pat_completeness auto
termination
  by (relation "measure (\<lambda>(e, x). nat (e + 1022))") auto

definition round_double :: "real \<Rightarrow> pyfloat" where
  "round_double x =
     (let e = exponent_from 1023 x;
          ulp = 2 powi (e - 52);
          y = of_int (round_half_even (x / ulp)) * ulp
      in if 2 powi 1024 \<le> \<bar>y\<bar> then (if 0 < x then PosInf else NegInf) else Finite y)"

text \<open>
  The subtraction of two floats, \<^verbatim>\<open>data.price - data.atr\<close>: the exact difference of
  two finite floats rounded to a double, and the rules of IEEE 754 for NaN and the
  infinities.
\<close>

fun float_sub :: "pyfloat \<Rightarrow> pyfloat \<Rightarrow> pyfloat" where
  "float_sub NaN _ = NaN"
| "float_sub _ NaN = NaN"
| "float_sub PosInf PosInf = NaN"
| "float_sub NegInf NegInf = NaN"
| "float_sub PosInf _ = PosInf"
| "float_sub NegInf _ = NegInf"
| "float_sub (Finite x) PosInf = NegInf"
| "float_sub (Finite x) NegInf = PosInf"
| "float_sub (Finite x) (Finite y) = round_double (x - y)"

section \<open>Data model\<close>

text \<open>
  The payload of \<^verbatim>\<open>POST /webhook\<close> is the pydantic model \<^verbatim>\<open>WebhookData\<close> of
  \<^verbatim>\<open>webhook_receiver.py\<close>: a string and two floats.

  A dictionary returned by the two queries of \<^verbatim>\<open>data_storage.py\<close> has the four keys
  \<^verbatim>\<open>symbol, price, atr, timestamp\<close>; a row of the table \<^verbatim>\<open>investment_data\<close> has
  the column \<^verbatim>\<open>id\<close> in addition. \<^verbatim>\<open>CURRENT_TIMESTAMP\<close> is a text
  \<^verbatim>\<open>YYYY-MM-DD HH:MM:SS\<close>, whose order as a text is the order of the seconds it denotes:
  a timestamp is modelled as that number of seconds.
\<close>

record WebhookData =
  symbol :: string
  price :: pyfloat
  atr :: pyfloat

record observation = WebhookData +
  timestamp :: nat

record row = observation +
  row_id :: nat

text \<open>The columns \<^verbatim>\<open>SELECT symbol, price, atr, timestamp\<close> keeps of a row.\<close>

definition select_columns :: "row \<Rightarrow> observation" where
  "select_columns r =
     \<lparr>symbol = symbol r, price = price r, atr = atr r, timestamp = timestamp r\<rparr>"

section \<open>The persistence medium and the connection\<close>

text \<open>
  Every call of \<^verbatim>\<open>sqlite3\<close> can raise. What the medium does during one call of the
  manager is an input of the model: for each of \<^verbatim>\<open>sqlite3.connect\<close>,
  \<^verbatim>\<open>cursor.execute\<close> and \<^verbatim>\<open>conn.commit\<close> either nothing (the call succeeds) or
  the message of the exception it raises, and the second \<^verbatim>\<open>CURRENT_TIMESTAMP\<close>
  evaluates to. \<^verbatim>\<open>conn.rollback\<close> is taken to succeed.
\<close>

datatype exn = SqliteError string

record medium =
  connect_error :: "string option"
  execute_error :: "string option"
  commit_error :: "string option"
  now :: nat

text \<open>
  The state of the manager as one thread sees it: whether the thread-local connection
  exists, the committed rows of the table in the order of their insertion, and the rows
  written in the open transaction of the connection (python's \<^verbatim>\<open>sqlite3\<close> opens one
  before an \<^verbatim>\<open>INSERT\<close>), which \<^verbatim>\<open>commit\<close> makes durable and \<^verbatim>\<open>rollback\<close>
  discards. A statement on the connection reads both.
\<close>

record db =
  connection :: bool
  table :: "row list"
  pending :: "row list"

definition visible :: "db \<Rightarrow> row list" where
  "visible d = table d @ pending d"

definition rollback :: "db \<Rightarrow> db" where
  "rollback d = d\<lparr>pending := []\<rparr>"

definition commit :: "medium \<Rightarrow> db \<Rightarrow> (exn + unit) \<times> db" where
  "commit m d =
     (case commit_error m of
        Some msg \<Rightarrow> (Inl (SqliteError msg), d)
      | None \<Rightarrow> (Inr (), d\<lparr>table := table d @ pending d, pending := []\<rparr>))"

text \<open>
  \<^verbatim>\<open>id INTEGER PRIMARY KEY AUTOINCREMENT\<close>: one more than the largest id in use
  (no row is ever deleted, and a rolled back insert rolls the sequence back too).
\<close>

definition next_id :: "row list \<Rightarrow> nat" where
  "next_id rs = Suc (fold max (map row_id rs) 0)"

text \<open>
  \<^verbatim>\<open>INSERT INTO investment_data (symbol, price, atr) VALUES (?, ?, ?)\<close>: the id and
  the timestamp are the defaults of the schema. \<^verbatim>\<open>sqlite3\<close> binds a NaN as
  \<^verbatim>\<open>NULL\<close>, which the \<^verbatim>\<open>NOT NULL\<close> of the two columns refuses: the insert
  raises; an infinity is stored as it is.
\<close>

definition execute_insert ::
  "medium \<Rightarrow> db \<Rightarrow> string \<Rightarrow> pyfloat \<Rightarrow> pyfloat \<Rightarrow> (exn + unit) \<times> db" where
  "execute_insert m d s p a =
     (case execute_error m of
        Some msg \<Rightarrow> (Inl (SqliteError msg), d)
      | None \<Rightarrow>
          if is_nan p \<or> is_nan a
          then (Inl (SqliteError ''NOT NULL constraint failed''), d)
          else
            (Inr (),
             d\<lparr>pending := pending d @
                [\<lparr>symbol = s, price = p, atr = a, timestamp = now m,
                  row_id = next_id (visible d)\<rparr>]\<rparr>))"

text \<open>
  \<^verbatim>\<open>get_connection\<close>, a context manager: it connects when the thread has no
  connection yet (an exception of \<^verbatim>\<open>connect\<close> leaves the manager before the
  \<^verbatim>\<open>try\<close>), runs the body of the \<^verbatim>\<open>with\<close> block, and on an exception of the body
  rolls back and raises it again.
\<close>

definition get_connection ::
  "medium \<Rightarrow> db \<Rightarrow> (db \<Rightarrow> (exn + 'a) \<times> db) \<Rightarrow> (exn + 'a) \<times> db" where
  "get_connection m d body =
     (case (if connection d then None else connect_error m) of
        Some msg \<Rightarrow> (Inl (SqliteError msg), d)
      | None \<Rightarrow>
          (case body (d\<lparr>connection := True\<rparr>) of
             (Inl e, d') \<Rightarrow> (Inl e, rollback d')
           | (Inr v, d') \<Rightarrow> (Inr v, d')))"

section \<open>The store: \<^verbatim>\<open>DatabaseManager\<close>\<close>

text \<open>
  \<^verbatim>\<open>insert_data\<close>: inside the connection manager, the insert, the commit and
  \<^verbatim>\<open>return True\<close>; \<^verbatim>\<open>except Exception\<close> around it prints and returns False.
  The result is a sum so that an exception leaving the function would be a value
  \<open>Inl\<close>.
\<close>

definition insert_data ::
  "medium \<Rightarrow> db \<Rightarrow> string \<Rightarrow> pyfloat \<Rightarrow> pyfloat \<Rightarrow> (exn + bool) \<times> db" where
  "insert_data m d s p a =
     (case get_connection m d
             (\<lambda>conn.
                case execute_insert m conn s p a of
                  (Inl e, c1) \<Rightarrow> (Inl e, c1)
                | (Inr _, c1) \<Rightarrow>
                    (case commit m c1 of
                       (Inl e, c2) \<Rightarrow> (Inl e, c2)
                     | (Inr _, c2) \<Rightarrow> (Inr True, c2))) of
        (Inl e, d') \<Rightarrow> (Inr False, d')
      | (Inr b, d') \<Rightarrow> (Inr b, d'))"

text \<open>
  \<^verbatim>\<open>ORDER BY timestamp DESC\<close>. The statement leaves the order of rows of equal
  timestamp to the engine. SQLite reads the partitions of the window from the index
  \<^verbatim>\<open>idx_symbol_timestamp\<close> that \<^verbatim>\<open>_init_db\<close> creates on
  \<^verbatim>\<open>(symbol, timestamp DESC)\<close>, where entries of equal symbol and timestamp follow
  in the order of their rowid, which is the order of insertion. The model takes the rows
  in the order of insertion and sorts stably, which gives that order. The lemmas on the
  two queries are proved for every list of rows, so they hold whatever the order among
  equal timestamps is; the order in which rows of different symbols and equal timestamp
  leave the outer sort is the engine's, and nothing below depends on it.
\<close>

definition order_by_timestamp_desc ::
  "'a observation_scheme list \<Rightarrow> 'a observation_scheme list" where
  "order_by_timestamp_desc rs = sort_key (\<lambda>r. - int (timestamp r)) rs"

text \<open>
  The common table expression \<^verbatim>\<open>ranked_data\<close>: the four columns of every row and
  \<^verbatim>\<open>ROW_NUMBER() OVER (PARTITION BY symbol ORDER BY timestamp DESC)\<close>, the position
  (from 1) of the row in its partition ordered by timestamp descending.
\<close>

definition partition_by_symbol :: "observation list \<Rightarrow> observation list list" where
  "partition_by_symbol rs =
     map (\<lambda>s. filter (\<lambda>r. symbol r = s) rs) (remdups (map symbol rs))"

definition row_number :: "observation list \<Rightarrow> (observation \<times> nat) list" where
  "row_number part = zip part [1 ..< Suc (length part)]"

definition ranked_data :: "row list \<Rightarrow> (observation \<times> nat) list" where
  "ranked_data t =
     concat (map (\<lambda>part. row_number (order_by_timestamp_desc part))
                 (partition_by_symbol (map select_columns t)))"

text \<open>
  \<^verbatim>\<open>SELECT symbol, price, atr, timestamp FROM ranked_data WHERE rn = 1
  ORDER BY timestamp DESC\<close>.
\<close>

definition latest_query :: "row list \<Rightarrow> observation list" where
  "latest_query t =
     order_by_timestamp_desc (map fst (filter (\<lambda>(r, rn). rn = 1) (ranked_data t)))"

text \<open>
  A \<^verbatim>\<open>SELECT\<close> through \<^verbatim>\<open>cursor.execute\<close> and \<^verbatim>\<open>fetchall\<close>: it raises when the
  medium fails and changes nothing.
\<close>

definition execute_select ::
  "medium \<Rightarrow> db \<Rightarrow> (row list \<Rightarrow> observation list) \<Rightarrow> (exn + observation list) \<times> db" where
  "execute_select m d q =
     (case execute_error m of
        Some msg \<Rightarrow> (Inl (SqliteError msg), d)
      | None \<Rightarrow> (Inr (q (visible d)), d))"

text \<open>
  \<^verbatim>\<open>get_latest_data_per_symbol\<close>: the query inside the connection manager;
  \<^verbatim>\<open>except Exception\<close> prints and returns the empty list.
\<close>

definition get_latest_data_per_symbol ::
  "medium \<Rightarrow> db \<Rightarrow> (exn + observation list) \<times> db" where
  "get_latest_data_per_symbol m d =
     (case get_connection m d (\<lambda>conn. execute_select m conn latest_query) of
        (Inl e, d') \<Rightarrow> (Inr [], d')
      | (Inr rows, d') \<Rightarrow> (Inr rows, d'))"

text \<open>
  \<^verbatim>\<open>get_all_data\<close>: \<^verbatim>\<open>if limit:\<close> is false for \<^verbatim>\<open>None\<close> and for 0; any other
  limit is appended to the statement as \<^verbatim>\<open>LIMIT n\<close>, and SQLite reads a negative
  \<^verbatim>\<open>LIMIT\<close> as no bound. A Python integer has no bound, the \<^verbatim>\<open>LIMIT\<close> of SQLite
  is a signed integer of 64 bits: with a limit outside that range
  \<^verbatim>\<open>cursor.execute\<close> raises (datatype mismatch).
\<close>

definition sqlite_int64 :: "int \<Rightarrow> bool" where
  "sqlite_int64 n = (- (2 ^ 63) \<le> n \<and> n < 2 ^ 63)"

definition limit_accepted :: "int option \<Rightarrow> bool" where
  "limit_accepted limit = (case limit of None \<Rightarrow> True | Some n \<Rightarrow> n = 0 \<or> sqlite_int64 n)"

definition sql_limit :: "int \<Rightarrow> 'a list \<Rightarrow> 'a list" where
  "sql_limit n rs = (if n < 0 then rs else take (nat n) rs)"

definition all_query :: "int option \<Rightarrow> row list \<Rightarrow> observation list" where
  "all_query limit t =
     (let rs = order_by_timestamp_desc (map select_columns t)
      in case limit of
           None \<Rightarrow> rs
         | Some n \<Rightarrow> if n \<noteq> 0 then sql_limit n rs else rs)"

definition get_all_data ::
  "medium \<Rightarrow> db \<Rightarrow> int option \<Rightarrow> (exn + observation list) \<times> db" where
  "get_all_data m d limit =
     (case get_connection m d
             (\<lambda>conn.
                if limit_accepted limit then execute_select m conn (all_query limit)
                else (Inl (SqliteError ''datatype mismatch''), conn)) of
        (Inl e, d') \<Rightarrow> (Inr [], d')
      | (Inr rows, d') \<Rightarrow> (Inr rows, d'))"

section \<open>The ingestion endpoint: \<^verbatim>\<open>receive_webhook\<close>\<close>

text \<open>
  The handler raises \<^verbatim>\<open>HTTPException(status_code, detail)\<close> or returns the
  dictionary of the confirmation, whose \<^verbatim>\<open>data\<close> has the three fields of the payload
  and \<^verbatim>\<open>exit_price\<close>.
\<close>

datatype HTTPException = HTTPException nat string

record response_data = WebhookData +
  exit_price :: pyfloat

record confirmation =
  status :: string
  message :: string
  data :: response_data

fun str :: "exn \<Rightarrow> string" where
  "str (SqliteError msg) = msg"

text \<open>
  The two checks in the order of the source, then the insert; a False of
  \<^verbatim>\<open>insert_data\<close> is a 500, and the last \<^verbatim>\<open>except Exception\<close> turns an exception
  of \<^verbatim>\<open>insert_data\<close> into a 500 too. The handler does not look at the symbol.
\<close>

definition receive_webhook ::
  "medium \<Rightarrow> db \<Rightarrow> WebhookData \<Rightarrow> (HTTPException + confirmation) \<times> db" where
  "receive_webhook m d wd =
     (if le_zero (price wd) then (Inl (HTTPException 400 ''Price must be positive''), d)
      else if lt_zero (atr wd) then (Inl (HTTPException 400 ''ATR cannot be negative''), d)
      else
        (case insert_data m d (symbol wd) (price wd) (atr wd) of
           (Inl e, d') \<Rightarrow> (Inl (HTTPException 500 (''Internal error: '' @ str e)), d')
         | (Inr success, d') \<Rightarrow>
             if \<not> success then (Inl (HTTPException 500 ''Failed to store data''), d')
             else
               (Inr \<lparr>status = ''success'',
                     message = ''Data for '' @ symbol wd @ '' received and stored'',
                     data = \<lparr>symbol = symbol wd, price = price wd, atr = atr wd,
                             exit_price = float_sub (price wd) (atr wd)\<rparr>\<rparr>,
                d')))"

text \<open>
  \<^verbatim>\<open>GET /health\<close>: it reads the latest rows to test the database and reports
  healthy with their number, or unhealthy with the exception it caught.
\<close>

datatype health = Healthy nat | Unhealthy string

definition health_check :: "medium \<Rightarrow> db \<Rightarrow> health \<times> db" where
  "health_check m d =
     (case get_latest_data_per_symbol m d of
        (Inl e, d') \<Rightarrow> (Unhealthy (str e), d')
      | (Inr rows, d') \<Rightarrow> (Healthy (length rows), d'))"

section \<open>Runs of the program\<close>

text \<open>
  The manager after its constructor: \<^verbatim>\<open>_init_db\<close> has connected, created the empty
  table and committed.
\<close>

definition init_db :: db where
  "init_db = \<lparr>connection = True, table = [], pending = []\<rparr>"

text \<open>A medium on which every call succeeds, at the second \<open>t\<close>.\<close>

definition medium_ok :: "nat \<Rightarrow> medium" where
  "medium_ok t =
     \<lparr>connect_error = None, execute_error = None, commit_error = None, now = t\<rparr>"

text \<open>
  A sequence of calls of \<^verbatim>\<open>insert_data\<close>, each with what the medium does during
  it, and the payloads of the calls that returned True.
\<close>

fun insert_all :: "db \<Rightarrow> (medium \<times> WebhookData) list \<Rightarrow> db" where
  "insert_all d [] = d"
| "insert_all d ((m, wd) # ops) =
     insert_all (snd (insert_data m d (symbol wd) (price wd) (atr wd))) ops"

fun confirmed :: "db \<Rightarrow> (medium \<times> WebhookData) list \<Rightarrow> WebhookData list" where
  "confirmed d [] = []"
| "confirmed d ((m, wd) # ops) =
     (case insert_data m d (symbol wd) (price wd) (atr wd) of
        (r, d') \<Rightarrow> (if r = Inr True then [wd] else []) @ confirmed d' ops)"

text \<open>
  The row \<^verbatim>\<open>rn = 1\<close> of the partition of a symbol, as the proofs name it: the
  first row of the partition in the order of the window. It is used for the symbols of
  the table only, whose partitions are not empty.
\<close>

definition first_of :: "observation list \<Rightarrow> string \<Rightarrow> observation" where
  "first_of obs s = hd (order_by_timestamp_desc (filter (\<lambda>r. symbol r = s) obs))"

section \<open>Evaluating the rounding\<close>

declare exponent_from.simps [simp del]

lemma exponent_from_eq:
  assumes "- 1022 \<le> k" "k \<le> e" "2 powi k \<le> \<bar>x\<bar>" "\<bar>x\<bar> < 2 powi (k + 1)"
  shows "exponent_from e x = k"
  using assms
proof (induction e x rule: exponent_from.induct)
  case (1 e x)
  show ?case
  proof (cases "e \<le> - 1022 \<or> 2 powi e \<le> \<bar>x\<bar>")
    case True
    have "e \<le> k"
    proof (cases "e \<le> - 1022")
      case True
      with "1.prems" show ?thesis by simp
    next
      case False
      with True have "(2::real) powi e \<le> \<bar>x\<bar>" by simp
      with "1.prems"(4) have "(2::real) powi e < 2 powi (k + 1)" by simp
      then have "e < k + 1"
        by (metis not_le power_int_increasing one_le_numeral)
      then show ?thesis by simp
    qed
    with "1.prems"(2) True show ?thesis
      by (subst exponent_from.simps) simp
  next
    case False
    then have "\<bar>x\<bar> < 2 powi e" by simp
    with "1.prems"(3) have "(2::real) powi k < 2 powi e" by simp
    then have "k < e"
      by (metis not_le power_int_increasing one_le_numeral)
    with "1.IH"[OF False] "1.prems" False show ?thesis
      by (subst exponent_from.simps) simp
  qed
qed

lemma round_double_normal:
  assumes "- 1022 \<le> k" "k \<le> 1023" "2 powi k \<le> \<bar>x\<bar>" "\<bar>x\<bar> < 2 powi (k + 1)"
  shows "round_double x =
     (let y = of_int (round_half_even (x / 2 powi (k - 52))) * 2 powi (k - 52)
      in if 2 powi 1024 \<le> \<bar>y\<bar> then (if 0 < x then PosInf else NegInf) else Finite y)"
  unfolding round_double_def exponent_from_eq[OF assms] by (simp add: Let_def)




lemma float_sub_rounds:
  "float_sub (Finite 10000000000000000) (Finite 1) = Finite 10000000000000000"
  by (simp, subst round_double_normal[of 53]) (simp_all add: round_half_even_def Let_def)

section \<open>The latest row of each symbol\<close>

lemma row_number_first:
  "filter (\<lambda>(r, rn). rn = Suc 0) (row_number part) =
     (case part of [] \<Rightarrow> [] | x # _ \<Rightarrow> [(x, Suc 0)])"
proof (cases part)
  case Nil
  then show ?thesis by (simp add: row_number_def)
next
  case (Cons x xs)
  have rest: "filter (\<lambda>(r, rn). rn = Suc 0) (zip xs [Suc (Suc 0) ..< k]) = []" for k
    by (auto simp: filter_empty_conv dest: set_zip_rightD)
  have "[Suc 0 ..< Suc (Suc (length xs))] = Suc 0 # [Suc (Suc 0) ..< Suc (Suc (length xs))]"
    by (rule upt_conv_Cons) simp
  with Cons rest show ?thesis
    by (simp add: row_number_def del: upt_Suc)
qed

lemma partition_nonempty:
  "s \<in> set (map symbol obs) \<Longrightarrow> filter (\<lambda>r. symbol r = s) obs \<noteq> []"
  by (auto simp: filter_empty_conv)

lemma order_by_Nil_iff: "order_by_timestamp_desc xs = [] \<longleftrightarrow> xs = []"
  by (metis length_0_conv length_sort order_by_timestamp_desc_def)

lemma rank_one_concat:
  assumes "set syms \<subseteq> symbol ` set obs"
  shows "map fst (filter (\<lambda>(r, rn). rn = Suc 0)
           (concat (map (\<lambda>part. row_number (order_by_timestamp_desc part))
                        (map (\<lambda>s. filter (\<lambda>r. symbol r = s) obs) syms)))) =
         map (first_of obs) syms"
  using assms
proof (induction syms)
  case Nil
  then show ?case by simp
next
  case (Cons s syms)
  let ?srt = "order_by_timestamp_desc (filter (\<lambda>r. symbol r = s) obs)"
  from Cons.prems have "?srt \<noteq> []"
    by (auto simp: order_by_Nil_iff filter_empty_conv)
  then have "map fst (filter (\<lambda>(r, rn). rn = Suc 0) (row_number ?srt)) = [hd ?srt]"
    by (cases ?srt) (simp_all add: row_number_first)
  with Cons show ?case by (simp add: first_of_def)
qed

lemma rank_one_rows:
  "map fst (filter (\<lambda>(r, rn). rn = Suc 0) (ranked_data t)) =
     map (first_of (map select_columns t)) (remdups (map symbol (map select_columns t)))"
proof -
  have "set (remdups (map symbol (map select_columns t))) \<subseteq> symbol ` set (map select_columns t)"
    by (simp only: set_remdups set_map subset_refl)
  from rank_one_concat[OF this] show ?thesis
    unfolding ranked_data_def partition_by_symbol_def .
qed

lemma first_of_props:
  assumes "s \<in> symbol ` set obs"
  shows "first_of obs s \<in> set obs" "symbol (first_of obs s) = s"
    "\<forall>x \<in> set obs. symbol x = s \<longrightarrow> timestamp x \<le> timestamp (first_of obs s)"
proof -
  let ?part = "filter (\<lambda>r. symbol r = s) obs"
  let ?srt = "order_by_timestamp_desc ?part"
  from assms have ne: "?srt \<noteq> []"
    by (auto simp: order_by_Nil_iff filter_empty_conv)
  then have "hd ?srt \<in> set ?srt" by simp
  then have mem: "first_of obs s \<in> set ?part"
    by (simp add: first_of_def order_by_timestamp_desc_def)
  then show "first_of obs s \<in> set obs" "symbol (first_of obs s) = s" by simp_all
  have srt: "sorted (map (\<lambda>r. - int (timestamp r)) ?srt)"
    by (simp add: order_by_timestamp_desc_def)
  show "\<forall>x \<in> set obs. symbol x = s \<longrightarrow> timestamp x \<le> timestamp (first_of obs s)"
  proof (intro ballI impI)
    fix x assume "x \<in> set obs" "symbol x = s"
    then have "x \<in> set ?srt" by (simp add: order_by_timestamp_desc_def)
    with ne srt have "- int (timestamp (hd ?srt)) \<le> - int (timestamp x)"
      by (cases ?srt) auto
    then show "timestamp x \<le> timestamp (first_of obs s)" by (simp add: first_of_def)
  qed
qed

lemma order_by_sorted:
  "sorted_wrt (\<lambda>a b. timestamp b \<le> timestamp a) (order_by_timestamp_desc rs)"
proof -
  have "sorted (map (\<lambda>r. - int (timestamp r)) (order_by_timestamp_desc rs))"
    by (simp add: order_by_timestamp_desc_def)
  then show ?thesis by (simp add: sorted_map)
qed

lemma select_columns_simps [simp]:
  "symbol (select_columns r) = symbol r" "price (select_columns r) = price r"
  "atr (select_columns r) = atr r" "timestamp (select_columns r) = timestamp r"
  by (simp_all add: select_columns_def)

lemma symbols_select_columns: "map symbol (map select_columns t) = map symbol t"
  by simp

lemma latest_query_eq:
  "latest_query t =
     order_by_timestamp_desc (map (first_of (map select_columns t)) (remdups (map symbol t)))"
  unfolding latest_query_def One_nat_def rank_one_rows symbols_select_columns ..

lemma set_latest_query:
  "set (latest_query t) = first_of (map select_columns t) ` symbol ` set t"
  unfolding latest_query_eq order_by_timestamp_desc_def
  by (simp only: set_sort set_map set_remdups)

lemma symbols_picked:
  "map symbol (map (first_of (map select_columns t)) (remdups (map symbol t))) =
     remdups (map symbol t)"
proof -
  have "map (\<lambda>s. symbol (first_of (map select_columns t) s)) (remdups (map symbol t)) =
        remdups (map symbol t)"
  proof (rule map_idI)
    fix s assume "s \<in> set (remdups (map symbol t))"
    then have "s \<in> symbol ` set (map select_columns t)"
      by (simp add: image_image)
    then show "symbol (first_of (map select_columns t) s) = s"
      by (rule first_of_props(2))
  qed
  then show ?thesis by (simp add: comp_def)
qed

lemma latest_query_distinct: "distinct (map symbol (latest_query t))"
proof -
  have "distinct (map symbol (map (first_of (map select_columns t)) (remdups (map symbol t))))"
    by (simp only: symbols_picked distinct_remdups)
  then show ?thesis
    unfolding latest_query_eq order_by_timestamp_desc_def
    by (simp only: distinct_map distinct_sort set_sort)
qed

lemma latest_query_symbols: "set (map symbol (latest_query t)) = set (map symbol t)"
proof -
  have "set (map symbol (latest_query t)) =
        set (map symbol (map (first_of (map select_columns t)) (remdups (map symbol t))))"
    unfolding latest_query_eq order_by_timestamp_desc_def
    by (simp only: set_map set_sort)
  then show ?thesis
    by (simp only: symbols_picked set_remdups)
qed

lemma latest_query_sorted:
  "sorted_wrt (\<lambda>a b. timestamp b \<le> timestamp a) (latest_query t)"
  by (simp add: latest_query_eq order_by_sorted)

lemma latest_query_maximal:
  assumes "r \<in> set (latest_query t)"
  shows "r \<in> select_columns ` set t"
    and "\<forall>x \<in> set t. symbol x = symbol r \<longrightarrow> timestamp x \<le> timestamp r"
proof -
  from assms obtain s where s: "s \<in> symbol ` set t" "r = first_of (map select_columns t) s"
    unfolding set_latest_query by blast
  then have s': "s \<in> symbol ` set (map select_columns t)"
    by (simp add: image_image)
  from first_of_props(1)[OF s'] s show "r \<in> select_columns ` set t"
    by simp
  show "\<forall>x \<in> set t. symbol x = symbol r \<longrightarrow> timestamp x \<le> timestamp r"
  proof (intro ballI impI)
    fix x assume x: "x \<in> set t" "symbol x = symbol r"
    then have "select_columns x \<in> set (map select_columns t)"
      "symbol (select_columns x) = s"
      using first_of_props(2)[OF s'] s by simp_all
    with first_of_props(3)[OF s'] have "timestamp (select_columns x) \<le> timestamp r"
      unfolding s by blast
    then show "timestamp x \<le> timestamp r" by simp
  qed
qed

section \<open>Writes\<close>

text \<open>
  What \<^verbatim>\<open>insert_data\<close> does from a state with no open transaction, case by case:
  it returns True exactly when the connection exists or can be made, neither value is
  NaN and neither the insert nor the commit raises.
\<close>

lemma insert_data_cases:
  "pending d = [] \<Longrightarrow>
   insert_data m d s p a =
     (if (connection d \<or> connect_error m = None) \<and> execute_error m = None \<and>
         commit_error m = None \<and> \<not> is_nan p \<and> \<not> is_nan a
      then (Inr True,
            d\<lparr>connection := True,
              table := table d @
                [\<lparr>symbol = s, price = p, atr = a, timestamp = now m,
                  row_id = next_id (table d)\<rparr>]\<rparr>)
      else (Inr False,
            if connection d \<or> connect_error m = None then d\<lparr>connection := True\<rparr> else d))"
  by (cases d)
     (auto simp: insert_data_def get_connection_def execute_insert_def commit_def
        rollback_def visible_def split: option.splits)

lemma insert_data_step:
  assumes "pending d = []" "insert_data m d s p a = (r, d')"
  shows "pending d' = []" "connection d \<Longrightarrow> connection d'"
    "map symbol (table d') = map symbol (table d) @ (if r = Inr True then [s] else [])"
  using assms by (auto simp: insert_data_cases split: if_splits)

lemma insert_all_table:
  "pending d = [] \<Longrightarrow>
   pending (insert_all d ops) = [] \<and>
   (connection d \<longrightarrow> connection (insert_all d ops)) \<and>
   map symbol (table (insert_all d ops)) = map symbol (table d) @ map symbol (confirmed d ops)"
proof (induction ops arbitrary: d)
  case Nil
  then show ?case by simp
next
  case (Cons op ops)
  obtain m wd where op: "op = (m, wd)" by (cases op)
  obtain r d' where ins: "insert_data m d (symbol wd) (price wd) (atr wd) = (r, d')"
    by (cases "insert_data m d (symbol wd) (price wd) (atr wd)")
  note step = insert_data_step[OF Cons.prems ins]
  from Cons.IH[OF step(1)] step(2,3) show ?case
    by (simp add: op ins)
qed

text \<open>
  Claim C10. \<^verbatim>\<open>insert_data\<close> is total at its interface: from a state with no open
  transaction and for every input and every behaviour of the medium, it returns True
  and the row is committed, or it returns False, the committed rows are the ones before
  the call and no written row is left in the transaction; no exception leaves it (the
  result is never \<open>Inl\<close>).
\<close>

theorem insert_data_total:
  assumes "pending d = []"
  shows "(\<exists>d'. insert_data m d s p a = (Inr True, d') \<and> pending d' = [] \<and>
            table d' = table d @
              [\<lparr>symbol = s, price = p, atr = a, timestamp = now m,
                row_id = next_id (table d)\<rparr>])
       \<or> (\<exists>d'. insert_data m d s p a = (Inr False, d') \<and> pending d' = [] \<and>
            table d' = table d)"
  using assms by (simp add: insert_data_cases)

text \<open>A committed insert, and an insert whose commit fails, on the empty table.\<close>

theorem insert_data_total_witness:
  "pending init_db = [] \<and>
   insert_data (medium_ok 100) init_db ''AAPL'' (Finite 150.25) (Finite 2.25) =
     (Inr True,
      \<lparr>connection = True,
        table = [\<lparr>symbol = ''AAPL'', price = Finite 150.25, atr = Finite 2.25,
                   timestamp = 100,
                  row_id = 1\<rparr>],
        pending = []\<rparr>) \<and>
   insert_data ((medium_ok 100)\<lparr>commit_error := Some ''disk is full''\<rparr>) init_db
       ''AAPL'' (Finite 150.25) (Finite 2.25) =
     (Inr False, init_db)"
  using insert_data_total [of init_db "medium_ok 100" "''AAPL''" "Finite 150.25" "Finite 2.25"]
    insert_data_total [of init_db "(medium_ok 100)\<lparr>commit_error := Some ''disk is full''\<rparr>"
      "''AAPL''" "Finite 150.25" "Finite 2.25"]
  by (simp add: init_db_def medium_ok_def insert_data_def get_connection_def
      execute_insert_def commit_def rollback_def visible_def next_id_def)

section \<open>Reads\<close>

lemma get_latest_cases:
  "get_latest_data_per_symbol m d =
     (if connection d \<or> connect_error m = None
      then (if execute_error m = None
            then (Inr (latest_query (visible d)), d\<lparr>connection := True\<rparr>)
            else (Inr [], d\<lparr>connection := True, pending := []\<rparr>))
      else (Inr [], d))"
  by (cases d)
     (auto simp: get_latest_data_per_symbol_def get_connection_def execute_select_def
        rollback_def visible_def split: option.splits)

lemma get_all_cases:
  "get_all_data m d limit =
     (if connection d \<or> connect_error m = None
      then (if execute_error m = None \<and> limit_accepted limit
            then (Inr (all_query limit (visible d)), d\<lparr>connection := True\<rparr>)
            else (Inr [], d\<lparr>connection := True, pending := []\<rparr>))
      else (Inr [], d))"
  by (cases d)
     (auto simp: get_all_data_def get_connection_def execute_select_def
        rollback_def visible_def split: option.splits)

lemma all_query_eq:
  "all_query limit t =
     (case limit of
        None \<Rightarrow> order_by_timestamp_desc (map select_columns t)
      | Some n \<Rightarrow>
          if n \<le> 0 then order_by_timestamp_desc (map select_columns t)
          else take (nat n) (order_by_timestamp_desc (map select_columns t)))"
  by (auto simp: all_query_def sql_limit_def Let_def split: option.splits)

lemma mset_order_by: "mset (order_by_timestamp_desc rs) = mset rs"
  by (simp add: order_by_timestamp_desc_def)

lemma length_order_by: "length (order_by_timestamp_desc rs) = length rs"
  by (simp add: order_by_timestamp_desc_def)

lemmas eval_defs = init_db_def medium_ok_def insert_data_cases next_id_def get_latest_cases
  get_all_cases visible_def latest_query_eq first_of_def order_by_timestamp_desc_def
  select_columns_def all_query_eq limit_accepted_def sqlite_int64_def

text \<open>
  Claim C1. After every sequence of calls of \<^verbatim>\<open>insert_data\<close> on the new manager,
  whatever the medium did during each, a read on a working medium returns a list and
  not an error; the list has exactly one record for each symbol of a confirmed insert
  (the symbols of the list are distinct and are those symbols), every record is a stored
  row, the list is ordered by timestamp descending, and it is empty exactly when no
  insert was confirmed.
\<close>

theorem latest_per_symbol_one_record_each:
  assumes "execute_error m = None"
  shows "\<exists>rs. fst (get_latest_data_per_symbol m (insert_all init_db ops)) = Inr rs \<and>
           distinct (map symbol rs) \<and>
           set (map symbol rs) = set (map symbol (confirmed init_db ops)) \<and>
           set rs \<subseteq> select_columns ` set (table (insert_all init_db ops)) \<and>
           sorted_wrt (\<lambda>a b. timestamp b \<le> timestamp a) rs \<and>
           (rs = []) = (confirmed init_db ops = [])"
proof -
  let ?d = "insert_all init_db ops"
  have init: "pending init_db = []" "connection init_db" "table init_db = []"
    by (simp_all add: init_db_def)
  from insert_all_table[OF init(1), of ops] init
  have d: "pending ?d = []" "connection ?d"
    "map symbol (table ?d) = map symbol (confirmed init_db ops)"
    by simp_all
  have res: "fst (get_latest_data_per_symbol m ?d) = Inr (latest_query (table ?d))"
    using assms d by (simp add: get_latest_cases visible_def)
  have syms: "set (map symbol (latest_query (table ?d))) =
              set (map symbol (confirmed init_db ops))"
    by (simp only: latest_query_symbols d(3))
  have rows: "set (latest_query (table ?d)) \<subseteq> select_columns ` set (table ?d)"
    using latest_query_maximal(1) by blast
  have "(latest_query (table ?d) = []) = (confirmed init_db ops = [])"
    using syms by (metis map_is_Nil_conv set_empty)
  with res syms rows show ?thesis
    by (intro exI[of _ "latest_query (table ?d)"])
       (simp add: latest_query_distinct latest_query_sorted)
qed

text \<open>
  Four inserts, the second of which fails at its commit: the read has the two symbols
  that were stored, the later one first.
\<close>

theorem latest_per_symbol_one_record_each_witness:
  "execute_error (medium_ok 200) = None \<and>
   fst (get_latest_data_per_symbol (medium_ok 200)
     (insert_all init_db
        [(medium_ok 100, \<lparr>symbol = ''AAPL'', price = Finite 150.25, atr = Finite 2.25\<rparr>),
         ((medium_ok 120)\<lparr>commit_error := Some ''disk is full''\<rparr>,
            \<lparr>symbol = ''TSLA'', price = Finite 250, atr = Finite 9\<rparr>),
         (medium_ok 160, \<lparr>symbol = ''MSFT'', price = Finite 410, atr = Finite 5\<rparr>),
         (medium_ok 170, \<lparr>symbol = ''AAPL'', price = Finite 151, atr = Finite 2\<rparr>)])) =
     Inr [\<lparr>symbol = ''AAPL'', price = Finite 151, atr = Finite 2, timestamp = 170\<rparr>,
          \<lparr>symbol = ''MSFT'', price = Finite 410, atr = Finite 5, timestamp = 160\<rparr>]"
  using latest_per_symbol_one_record_each [of "medium_ok 200"
        "[(medium_ok 100, \<lparr>symbol = ''AAPL'', price = Finite 150.25, atr = Finite 2.25\<rparr>),
         ((medium_ok 120)\<lparr>commit_error := Some ''disk is full''\<rparr>,
            \<lparr>symbol = ''TSLA'', price = Finite 250, atr = Finite 9\<rparr>),
         (medium_ok 160, \<lparr>symbol = ''MSFT'', price = Finite 410, atr = Finite 5\<rparr>),
         (medium_ok 170, \<lparr>symbol = ''AAPL'', price = Finite 151, atr = Finite 2\<rparr>)]"]
  by (simp add: eval_defs)

text \<open>
  The row a read returns for a symbol has the largest timestamp among the rows of that
  symbol: the part of "latest" that the statement fixes.
\<close>

lemma latest_per_symbol_max_timestamp:
  assumes "connection d \<or> connect_error m = None" "execute_error m = None"
    and "fst (get_latest_data_per_symbol m d) = Inr rs" "r \<in> set rs"
  shows "r \<in> select_columns ` set (visible d)"
    and "\<forall>x \<in> set (visible d). symbol x = symbol r \<longrightarrow> timestamp x \<le> timestamp r"
proof -
  from assms have r: "r \<in> set (latest_query (visible d))"
    by (simp add: get_latest_cases)
  from latest_query_maximal[OF r]
  show "r \<in> select_columns ` set (visible d)"
    and "\<forall>x \<in> set (visible d). symbol x = symbol r \<longrightarrow> timestamp x \<le> timestamp r"
    by simp_all
qed

text \<open>
  An insert at a second later than every stored row of its symbol: the next read has
  the inserted values for the symbol, and no other record of the symbol.
\<close>

lemma insert_then_latest_later_second:
  assumes d: "pending d = []" "connection d \<or> connect_error m = None"
    and m: "execute_error m = None" "commit_error m = None" "\<not> is_nan p" "\<not> is_nan a"
    and later: "\<forall>x \<in> set (table d). symbol x = s \<longrightarrow> timestamp x < now m"
    and m': "execute_error m' = None"
  shows "\<exists>rs. fst (get_latest_data_per_symbol m' (snd (insert_data m d s p a))) = Inr rs \<and>
           \<lparr>symbol = s, price = p, atr = a, timestamp = now m\<rparr> \<in> set rs \<and>
           (\<forall>r \<in> set rs. symbol r = s \<longrightarrow>
              r = \<lparr>symbol = s, price = p, atr = a, timestamp = now m\<rparr>)"
proof -
  let ?new = "\<lparr>symbol = s, price = p, atr = a, timestamp = now m,
                row_id = next_id (table d)\<rparr>"
  let ?t = "table d @ [?new]"
  let ?d' = "snd (insert_data m d s p a)"
  have d': "connection ?d'" "visible ?d' = ?t"
    using d m by (simp_all add: insert_data_cases visible_def)
  have res: "fst (get_latest_data_per_symbol m' ?d') = Inr (latest_query ?t)"
    using d' m' by (simp add: get_latest_cases)
  have only: "r = select_columns ?new" if r: "r \<in> set (latest_query ?t)" "symbol r = s" for r
  proof -
    from latest_query_maximal[OF r(1)] obtain x where
      x: "x \<in> set ?t" "r = select_columns x" and
      mx: "\<forall>y \<in> set ?t. symbol y = symbol r \<longrightarrow> timestamp y \<le> timestamp r"
      by blast
    from mx r(2) have "now m \<le> timestamp r" by simp
    with x r(2) later have "x = ?new" by auto
    with x show ?thesis by simp
  qed
  have "s \<in> set (map symbol (latest_query ?t))"
    unfolding latest_query_symbols by simp
  then obtain r where r: "r \<in> set (latest_query ?t)" "symbol r = s" by auto
  from only[OF r] r(1) have mem: "select_columns ?new \<in> set (latest_query ?t)" by simp
  have new_eq: "select_columns ?new = \<lparr>symbol = s, price = p, atr = a,
                    timestamp = now m\<rparr>"
    by (simp add: select_columns_def)
  from only have all: "\<forall>r \<in> set (latest_query ?t). symbol r = s \<longrightarrow> r = select_columns ?new"
    by blast
  from mem all show ?thesis
    unfolding res new_eq by blast
qed

text \<open>
  Claim C2. The claim is that among the rows of a symbol with equal maximum timestamp
  the read returns the one of highest id. The statement orders a partition by
  \<^verbatim>\<open>timestamp DESC\<close> alone, and \<^verbatim>\<open>CURRENT_TIMESTAMP\<close> has the resolution of a
  second. On the table below the rows 1 and 3 of AAPL have the maximum timestamp 100;
  the read returns the values of row 1, the lowest id, not those of row 3.
\<close>

theorem latest_query_tie_keeps_lowest_id:
  "latest_query
     [\<lparr>symbol = ''AAPL'', price = Finite 150.25, atr = Finite 2.25,
        timestamp = 100, row_id = 1\<rparr>,
      \<lparr>symbol = ''MSFT'', price = Finite 410, atr = Finite 5,
        timestamp = 160, row_id = 2\<rparr>,
      \<lparr>symbol = ''AAPL'', price = Finite 151, atr = Finite 2,
        timestamp = 100, row_id = 3\<rparr>,
      \<lparr>symbol = ''AAPL'', price = Finite 149, atr = Finite 3,
        timestamp = 90, row_id = 4\<rparr>] =
     [\<lparr>symbol = ''MSFT'', price = Finite 410, atr = Finite 5, timestamp = 160\<rparr>,
      \<lparr>symbol = ''AAPL'', price = Finite 150.25, atr = Finite 2.25, timestamp = 100\<rparr>]"
  by (simp add: eval_defs)

text \<open>
  Claim C5. The claim is that a read right after an insert has the inserted price and
  atr for the symbol, and that after several inserts of one symbol the read reflects the
  last. Two inserts of AAPL within the same second, both confirmed: the read returns the
  values of the first insert, 150.25 and 2.25, not those of the second, 151 and 2.
\<close>

theorem insert_same_second_returns_older:
  "confirmed init_db
     [(medium_ok 100, \<lparr>symbol = ''AAPL'', price = Finite 150.25, atr = Finite 2.25\<rparr>),
      (medium_ok 100, \<lparr>symbol = ''AAPL'', price = Finite 151, atr = Finite 2\<rparr>)] =
     [\<lparr>symbol = ''AAPL'', price = Finite 150.25, atr = Finite 2.25\<rparr>,
      \<lparr>symbol = ''AAPL'', price = Finite 151, atr = Finite 2\<rparr>] \<and>
   fst (get_latest_data_per_symbol (medium_ok 100)
     (insert_all init_db
        [(medium_ok 100, \<lparr>symbol = ''AAPL'', price = Finite 150.25, atr = Finite 2.25\<rparr>),
         (medium_ok 100, \<lparr>symbol = ''AAPL'', price = Finite 151, atr = Finite 2\<rparr>)])) =
     Inr [\<lparr>symbol = ''AAPL'', price = Finite 150.25, atr = Finite 2.25,
            timestamp = 100\<rparr>]"
  by (simp add: eval_defs)

text \<open>
  Claim C4. The claim is that a failure of the medium during the read of the latest rows
  reaches the caller as an error, so that "no data" and "storage failure" differ. With
  two rows stored and \<^verbatim>\<open>cursor.execute\<close> raising, the read returns the empty list,
  which is also its result on the empty table with a working medium; and
  \<^verbatim>\<open>health_check\<close>, whose \<^verbatim>\<open>except\<close> branch reports the database error, reports
  healthy with 0 records.
\<close>

theorem read_failure_returns_empty:
  "get_latest_data_per_symbol
     ((medium_ok 200)\<lparr>execute_error := Some ''database is locked''\<rparr>)
     \<lparr>connection = True,
       table = [\<lparr>symbol = ''AAPL'', price = Finite 150.25, atr = Finite 2.25,
                  timestamp = 100, row_id = 1\<rparr>,
                \<lparr>symbol = ''MSFT'', price = Finite 410, atr = Finite 5,
                  timestamp = 160, row_id = 2\<rparr>],
       pending = []\<rparr> =
     (Inr [],
      \<lparr>connection = True,
        table = [\<lparr>symbol = ''AAPL'', price = Finite 150.25, atr = Finite 2.25,
                   timestamp = 100, row_id = 1\<rparr>,
                 \<lparr>symbol = ''MSFT'', price = Finite 410, atr = Finite 5,
                   timestamp = 160, row_id = 2\<rparr>],
        pending = []\<rparr>) \<and>
   get_latest_data_per_symbol (medium_ok 200) init_db = (Inr [], init_db) \<and>
   fst (health_check
     ((medium_ok 200)\<lparr>execute_error := Some ''database is locked''\<rparr>)
     \<lparr>connection = True,
       table = [\<lparr>symbol = ''AAPL'', price = Finite 150.25, atr = Finite 2.25,
                  timestamp = 100, row_id = 1\<rparr>,
                \<lparr>symbol = ''MSFT'', price = Finite 410, atr = Finite 5,
                  timestamp = 160, row_id = 2\<rparr>],
       pending = []\<rparr>) = Healthy 0"
  by (simp add: health_check_def eval_defs)

lemma take_most_recent:
  assumes "sorted_wrt (\<lambda>a b. timestamp b \<le> timestamp a) full"
  shows "sorted_wrt (\<lambda>a b. timestamp b \<le> timestamp a) (take k full)"
    and "mset (take k full) \<subseteq># mset full"
    and "\<forall>x \<in># mset full - mset (take k full).
           \<forall>r \<in> set (take k full). timestamp x \<le> timestamp r"
proof -
  have split: "full = take k full @ drop k full" by simp
  from assms
  have s: "sorted_wrt (\<lambda>a b. timestamp b \<le> timestamp a) (take k full @ drop k full)"
    by simp
  then show "sorted_wrt (\<lambda>a b. timestamp b \<le> timestamp a) (take k full)"
    unfolding sorted_wrt_append by blast
  have m: "mset full = mset (take k full) + mset (drop k full)"
    by (metis split mset_append)
  then show "mset (take k full) \<subseteq># mset full" by simp
  from m have "mset full - mset (take k full) = mset (drop k full)" by simp
  with s show "\<forall>x \<in># mset full - mset (take k full).
                 \<forall>r \<in> set (take k full). timestamp x \<le> timestamp r"
    unfolding sorted_wrt_append by auto
qed

text \<open>
  Claim C9. The claim is that for every stored dataset \<^verbatim>\<open>get_all_data\<close> returns the
  rows by timestamp descending, all of them without a limit or with a limit of 0 or
  less, and with a limit \<open>n > 0\<close> the \<open>n\<close> most recent ones, or all rows when
  there are fewer. With the limit \<open>2 ^ 63\<close> and three rows stored, on a working
  medium, the statement is refused and the result is the empty list, not the three rows.
\<close>

theorem get_all_data_limit_beyond_int64:
  "get_all_data (medium_ok 200)
     \<lparr>connection = True,
       table = [\<lparr>symbol = ''AAPL'', price = Finite 150.25, atr = Finite 2.25,
                  timestamp = 100, row_id = 1\<rparr>,
                \<lparr>symbol = ''MSFT'', price = Finite 410, atr = Finite 5,
                  timestamp = 160, row_id = 2\<rparr>,
                \<lparr>symbol = ''AAPL'', price = Finite 151, atr = Finite 2,
                  timestamp = 170, row_id = 3\<rparr>],
       pending = []\<rparr> (Some 9223372036854775808) =
     (Inr [],
      \<lparr>connection = True,
        table = [\<lparr>symbol = ''AAPL'', price = Finite 150.25, atr = Finite 2.25,
                   timestamp = 100, row_id = 1\<rparr>,
                 \<lparr>symbol = ''MSFT'', price = Finite 410, atr = Finite 5,
                   timestamp = 160, row_id = 2\<rparr>,
                 \<lparr>symbol = ''AAPL'', price = Finite 151, atr = Finite 2,
                   timestamp = 170, row_id = 3\<rparr>],
        pending = []\<rparr>)"
  by (simp add: eval_defs)

text \<open>
  Claim C9, as amended. For every stored dataset, a working medium and a limit that is
  absent or within the signed 64-bit integers, \<^verbatim>\<open>get_all_data\<close> returns the rows
  ordered by timestamp descending. Without a limit, or with a limit of 0 or less, the
  rows returned are all the rows. With a limit \<open>n > 0\<close> they are \<open>n\<close> of the
  rows, or all of them when there are fewer, and every row left out is no more recent
  than any row returned.
\<close>

theorem get_all_data_ordered_and_limited:
  assumes "connection d \<or> connect_error m = None" "execute_error m = None"
    and "limit_accepted limit"
  shows "\<exists>rs. fst (get_all_data m d limit) = Inr rs \<and>
           sorted_wrt (\<lambda>a b. timestamp b \<le> timestamp a) rs \<and>
           (case limit of
              None \<Rightarrow> mset rs = mset (map select_columns (visible d))
            | Some n \<Rightarrow>
                if n \<le> 0 then mset rs = mset (map select_columns (visible d))
                else length rs = min (nat n) (length (visible d)) \<and>
                     mset rs \<subseteq># mset (map select_columns (visible d)) \<and>
                     (\<forall>x \<in># mset (map select_columns (visible d)) - mset rs.
                        \<forall>r \<in> set rs. timestamp x \<le> timestamp r))"
proof -
  let ?all = "map select_columns (visible d)"
  let ?full = "order_by_timestamp_desc ?all"
  have res: "fst (get_all_data m d limit) = Inr (all_query limit (visible d))"
    using assms by (simp add: get_all_cases)
  have full: "sorted_wrt (\<lambda>a b. timestamp b \<le> timestamp a) ?full" "mset ?full = mset ?all"
    "length ?full = length (visible d)"
    by (simp_all add: order_by_sorted mset_order_by length_order_by)
  show ?thesis
  proof (cases limit)
    case None
    with res full show ?thesis by (simp add: all_query_eq)
  next
    case (Some n)
    show ?thesis
    proof (cases "n \<le> 0")
      case True
      with Some res full show ?thesis by (simp add: all_query_eq)
    next
      case False
      with Some have q: "all_query limit (visible d) = take (nat n) ?full"
        by (simp add: all_query_eq)
      note t = take_most_recent[OF full(1), of "nat n"]
      have "length (take (nat n) ?full) = min (nat n) (length (visible d))"
        using full(3) by simp
      with t show ?thesis
        unfolding res q full(2) using Some False
        by (intro exI[of _ "take (nat n) ?full"]) simp
    qed
  qed
qed

text \<open>Three rows and a limit of 2: the two most recent rows, the later one first.\<close>

theorem get_all_data_ordered_and_limited_witness:
  "execute_error (medium_ok 200) = None \<and> limit_accepted (Some 2) \<and>
   fst (get_all_data (medium_ok 200)
     \<lparr>connection = True,
       table = [\<lparr>symbol = ''AAPL'', price = Finite 150.25, atr = Finite 2.25,
                  timestamp = 100, row_id = 1\<rparr>,
                \<lparr>symbol = ''MSFT'', price = Finite 410, atr = Finite 5,
                  timestamp = 160, row_id = 2\<rparr>,
                \<lparr>symbol = ''AAPL'', price = Finite 151, atr = Finite 2,
                  timestamp = 170, row_id = 3\<rparr>],
       pending = []\<rparr> (Some 2)) =
     Inr [\<lparr>symbol = ''AAPL'', price = Finite 151, atr = Finite 2, timestamp = 170\<rparr>,
          \<lparr>symbol = ''MSFT'', price = Finite 410, atr = Finite 5, timestamp = 160\<rparr>]"
  using get_all_data_ordered_and_limited [of
     "\<lparr>connection = True,
       table = [\<lparr>symbol = ''AAPL'', price = Finite 150.25, atr = Finite 2.25,
                  timestamp = 100, row_id = 1\<rparr>,
                \<lparr>symbol = ''MSFT'', price = Finite 410, atr = Finite 5,
                  timestamp = 160, row_id = 2\<rparr>,
                \<lparr>symbol = ''AAPL'', price = Finite 151, atr = Finite 2,
                  timestamp = 170, row_id = 3\<rparr>],
       pending = []\<rparr>" "medium_ok 200" "Some 2"]
  by (simp add: eval_defs)

section \<open>The ingestion endpoint\<close>

text \<open>
  Claim C7. For every payload with \<open>price \<le> 0\<close> or \<open>atr < 0\<close> the endpoint raises
  an HTTP 400 whose detail names the failed check, and the state of the store is the one
  before the request (nothing is written); the price is checked first, so a payload that
  fails both checks gets the message of the price.
\<close>

theorem receive_webhook_rejects_invalid:
  assumes "le_zero (price wd) \<or> lt_zero (atr wd)"
  shows "receive_webhook m d wd =
     (Inl (HTTPException 400
        (if le_zero (price wd) then ''Price must be positive''
         else ''ATR cannot be negative'')),
      d)"
  using assms by (auto simp: receive_webhook_def)

text \<open>A payload failing both checks, and one failing the check of the atr alone.\<close>

theorem receive_webhook_rejects_invalid_witness:
  "receive_webhook (medium_ok 100) init_db
       \<lparr>symbol = ''AAPL'', price = Finite (- 1), atr = Finite (- 1)\<rparr> =
     (Inl (HTTPException 400 ''Price must be positive''), init_db) \<and>
   receive_webhook (medium_ok 100) init_db
       \<lparr>symbol = ''AAPL'', price = Finite 1, atr = Finite (- 1)\<rparr> =
     (Inl (HTTPException 400 ''ATR cannot be negative''), init_db)"
  using
    receive_webhook_rejects_invalid
      [of "\<lparr>symbol = ''AAPL'', price = Finite (- 1), atr = Finite (- 1)\<rparr>"
          "medium_ok 100" init_db]
    receive_webhook_rejects_invalid
      [of "\<lparr>symbol = ''AAPL'', price = Finite 1, atr = Finite (- 1)\<rparr>"
          "medium_ok 100" init_db]
  by simp



text \<open>
  Claim C8. For a payload that passes the two checks, the endpoint raises an HTTP 500
  exactly when \<^verbatim>\<open>insert_data\<close> does not return True, and it returns the confirmation
  exactly when \<^verbatim>\<open>insert_data\<close> returns True: a write the store did not confirm is
  never reported as a success.
\<close>

theorem receive_webhook_store_failure:
  assumes "\<not> le_zero (price wd)" "\<not> lt_zero (atr wd)"
  shows "((\<exists>msg. fst (receive_webhook m d wd) = Inl (HTTPException 500 msg)) =
            (fst (insert_data m d (symbol wd) (price wd) (atr wd)) \<noteq> Inr True)) \<and>
         ((\<exists>c. fst (receive_webhook m d wd) = Inr c) =
            (fst (insert_data m d (symbol wd) (price wd) (atr wd)) = Inr True))"
  using assms
  by (auto simp: receive_webhook_def split: prod.splits sum.splits)

text \<open>A valid payload whose commit fails: a 500 and the store as it was.\<close>

theorem receive_webhook_store_failure_witness:
  "receive_webhook ((medium_ok 100)\<lparr>commit_error := Some ''disk is full''\<rparr>) init_db
       \<lparr>symbol = ''AAPL'', price = Finite 150.25, atr = Finite 2.25\<rparr> =
     (Inl (HTTPException 500 ''Failed to store data''), init_db) \<and>
   fst (insert_data ((medium_ok 100)\<lparr>commit_error := Some ''disk is full''\<rparr>) init_db
       ''AAPL'' (Finite 150.25) (Finite 2.25)) = Inr False"
  using receive_webhook_store_failure
    [of "\<lparr>symbol = ''AAPL'', price = Finite 150.25, atr = Finite 2.25\<rparr>"
        "(medium_ok 100)\<lparr>commit_error := Some ''disk is full''\<rparr>" init_db]
  by (simp add: receive_webhook_def eval_defs)

text \<open>
  Claim C3. The claim is that a payload with an empty or whitespace-only symbol is
  rejected with a client error and nothing is written. The handler checks the price
  and the atr and never the symbol: the payload with the empty symbol, price 1 and atr 0
  is stored and confirmed.
\<close>

theorem receive_webhook_empty_symbol_stored:
  "receive_webhook (medium_ok 100) init_db
       \<lparr>symbol = [], price = Finite 1, atr = Finite 0\<rparr> =
     (Inr \<lparr>status = ''success'', message = ''Data for  received and stored'',
           data = \<lparr>symbol = [], price = Finite 1, atr = Finite 0,
                   exit_price = Finite 1\<rparr>\<rparr>,
      \<lparr>connection = True,
        table = [\<lparr>symbol = [], price = Finite 1, atr = Finite 0, timestamp = 100,
                  row_id = 1\<rparr>],
        pending = []\<rparr>)"
proof -
  have "round_double 1 = Finite 1"
    by (subst round_double_normal[of 0]) (simp_all add: round_half_even_def Let_def)
  then show ?thesis
    by (simp add: receive_webhook_def eval_defs)
qed

text \<open>
  Claim C3, as amended. A payload whose symbol is empty or whitespace-only is rejected
  with a client error, and then nothing is written, exactly when \<open>price \<le> 0\<close> or
  \<open>atr < 0\<close>: the symbol is not examined. This holds for every symbol, every state
  of the store and every behaviour of the medium.
\<close>

theorem receive_webhook_symbol_unchecked:
  "((\<exists>msg. fst (receive_webhook m d wd) = Inl (HTTPException 400 msg)) =
      (le_zero (price wd) \<or> lt_zero (atr wd))) \<and>
   ((\<exists>msg. receive_webhook m d wd = (Inl (HTTPException 400 msg), d)) =
      (le_zero (price wd) \<or> lt_zero (atr wd)))"
  by (auto simp: receive_webhook_def split: prod.splits sum.splits)

text \<open>
  A symbol of two blanks: with a negative atr the request is rejected and the store is
  as it was; with a valid price and atr it is not rejected.
\<close>

theorem receive_webhook_symbol_unchecked_witness:
  "receive_webhook (medium_ok 100) init_db
       \<lparr>symbol = ''  '', price = Finite 150.25, atr = Finite (- 2.25)\<rparr> =
     (Inl (HTTPException 400 ''ATR cannot be negative''), init_db) \<and>
   (\<forall>msg. fst (receive_webhook (medium_ok 100) init_db
       \<lparr>symbol = ''  '', price = Finite 150.25, atr = Finite 2.25\<rparr>) \<noteq>
      Inl (HTTPException 400 msg))"
  using
    receive_webhook_symbol_unchecked [of "medium_ok 100" init_db
      "\<lparr>symbol = ''  '', price = Finite 150.25, atr = Finite (- 2.25)\<rparr>"]
    receive_webhook_symbol_unchecked [of "medium_ok 100" init_db
      "\<lparr>symbol = ''  '', price = Finite 150.25, atr = Finite 2.25\<rparr>"]
  by (auto simp: receive_webhook_def)

end
